theory Spec2Isabelle
  imports Complex_Main "HOL-Library.Word"
begin

section \<open>Data model (src/lib/types.ts, src/lib/sales/types.ts)\<close>

text \<open>
  JavaScript numbers that the engine only ever fills with integers (stat modifiers, money,
  rolls, patience, resistance, deal values) are \<open>int\<close>; the fractional constants of
  the formulas (0.15, 0.05, 0.1, the thresholds 2.0 and 3.0) are exact rationals, and a
  product or quotient with them is the exact one, where the source computes in doubles.
  String-literal union types are datatypes with the source's spelling.
\<close>

datatype Element = Fire | Water | Earth | Air | Wood | Metal

datatype SpiritAnimal =
  Wolf | Bear | Eagle | Dragon | Octopus | Owl | Tiger | Deer | Spider | Whale | Elephant | Frog

datatype Sex = Male | Female

text \<open>A \<open>StatRoll\<close> also carries the four dice and their total; the engine reads the modifier only.\<close>

record StatRoll =
  modifier :: int

text \<open>The stat \<open>int\<close> of the source is the field \<open>int_stat\<close> here.\<close>

record CharacterStats =
  str :: StatRoll
  dex :: StatRoll
  con :: StatRoll
  int_stat :: StatRoll
  wis :: StatRoll
  cha :: StatRoll

record CharacterTraits =
  element :: Element
  spiritAnimal :: SpiritAnimal
  sex :: Sex

text \<open>Of a \<open>StoredCharacter\<close> the engine reads name, stats and traits.\<close>

record StoredCharacter =
  name :: string
  stats :: CharacterStats
  traits :: CharacterTraits

datatype Phase =
  assignment | first_trip | first_client | crossroads | quarter_event
  | vp_meeting | whale_prep | whale | quarter_end

datatype Territory = tech | retail | finance

datatype TravelChoice = fly | train | drive

datatype CrossroadsChoice = grind | climb | hunt

datatype VPChoice = safe | stretch | allin

datatype WhaleInvestment = research | gift | dinner | wingit

datatype NegotiationAction = pitch | listen | concede | ability

datatype BodyLanguage = arms_crossed | skeptical | neutral | interested | engaged

datatype ModifierType = buff | debuff

datatype CheckResult = success | fail

datatype Tier = fired | under_review | employed | promotion | legendary

text \<open>
  \<open>Client\<close>: the field \<open>territory\<close> of the source is \<open>client_territory\<close>, since the game
  state has a field of that name too.
\<close>

record Client =
  client_name :: string
  client_territory :: Territory
  patience :: int
  maxPatience :: int
  budget :: int
  resistance :: int
  dealValue :: int
  active :: bool

text \<open>
  \<open>ActiveModifier\<close>: the fields \<open>type\<close> and \<open>value\<close> of the source are \<open>mtype\<close> and
  \<open>mvalue\<close>.
\<close>

record ActiveModifier =
  description :: string
  mtype :: ModifierType
  mvalue :: int
  source :: string
  phasesRemaining :: int

text \<open>
  \<open>NegotiationRoundResult\<close> without its narrative and its two roll records; \<open>round\<close> is
  \<open>round_no\<close>.
\<close>

record NegotiationRoundResult =
  round_no :: int
  playerAction :: NegotiationAction
  bodyLanguage :: "BodyLanguage option"
  moneyGained :: int
  patienceAfter :: int
  resistanceAfter :: int
  dealValueAfter :: int

text \<open>
  \<open>SalesGameState\<close>. Optional fields are options. The append-only list \<open>rolls\<close> and the
  start timestamp are left out: no function below reads or writes them.
\<close>

record SalesGameState =
  character :: StoredCharacter
  currentPhase :: Phase
  startingMoney :: int
  budgetScale :: rat
  money :: int
  territory :: "Territory option"
  vpChoice :: "VPChoice option"
  legendaryUnlocked :: bool
  spiritAbilityUsed :: bool
  modifiers :: "ActiveModifier list"
  choices :: "string list"
  travelChoice :: "TravelChoice option"
  travelBonus :: "int option"
  journeyEvent :: "string option"
  driveTrouble :: "string option"
  firstClient :: "Client option"
  firstClientRounds :: "NegotiationRoundResult list option"
  crossroadsChoice :: "CrossroadsChoice option"
  crossroadsResult :: "CheckResult option"
  quarterEvent :: "string option"
  whaleInvestment :: "WhaleInvestment option"
  luckyItem :: "string option"
  whaleClient :: "Client option"
  whaleRounds :: "NegotiationRoundResult list option"
  tier :: "Tier option"
  endedAt :: "int option"

text \<open>A thrown \<open>Error(message)\<close>.\<close>

datatype error = Error string

section \<open>Configuration (src/lib/config.ts, SALES_CONFIG)\<close>

definition promotionThreshold :: rat where
  "promotionThreshold = 2"

definition legendaryThreshold :: rat where
  "legendaryThreshold = 3"

section \<open>Setbacks: CON resilience and the Earth element (src/lib/sales/engine.ts)\<close>

definition getConAdjustment :: "StoredCharacter \<Rightarrow> int" where
  "getConAdjustment c = modifier (con (stats c)) * 100"

text \<open>\<open>removeMoney\<close>: Earth protection first, then CON resilience on a positive loss.\<close>

definition removeMoney :: "SalesGameState \<Rightarrow> int \<Rightarrow> SalesGameState" where
  "removeMoney state amount =
     (let actualLoss = amount;
          actualLoss = (if element (traits (character state)) = Earth
                        then max 0 (amount - 200) else actualLoss);
          actualLoss = (if actualLoss > 0
                        then max 0 (actualLoss - getConAdjustment (character state))
                        else actualLoss)
      in state\<lparr>money := money state - actualLoss\<rparr>)"

text \<open>
  The event tables. \<open>buff\<close> is absent, \<open>true\<close>, or (drive table, roll 6) a number; the
  display text \<open>effect\<close> is left out.
\<close>

datatype Buff = BuffTrue | BuffNum int

record GameEvent =
  roll :: int
  event_name :: string
  moneyChange :: int
  event_buff :: "Buff option"

fun truthy :: "Buff option \<Rightarrow> bool" where
  "truthy None = False"
| "truthy (Some BuffTrue) = True"
| "truthy (Some (BuffNum n)) = (n \<noteq> 0)"

definition JOURNEY_EVENTS :: "GameEvent list" where
  "JOURNEY_EVENTS =
    [\<lparr>roll = 1, event_name = ''delays'', moneyChange = 0, event_buff = None\<rparr>,
     \<lparr>roll = 2, event_name = ''contacts'', moneyChange = 300, event_buff = None\<rparr>,
     \<lparr>roll = 3, event_name = ''intel'', moneyChange = 0, event_buff = Some BuffTrue\<rparr>,
     \<lparr>roll = 4, event_name = ''luggage'', moneyChange = -100, event_buff = None\<rparr>,
     \<lparr>roll = 5, event_name = ''leads'', moneyChange = 500, event_buff = None\<rparr>,
     \<lparr>roll = 6, event_name = ''smooth'', moneyChange = 0, event_buff = None\<rparr>]"

definition DRIVE_TROUBLE_EVENTS :: "GameEvent list" where
  "DRIVE_TROUBLE_EVENTS =
    [\<lparr>roll = 1, event_name = ''breakdown'', moneyChange = -400, event_buff = None\<rparr>,
     \<lparr>roll = 2, event_name = ''traffic'', moneyChange = 0, event_buff = None\<rparr>,
     \<lparr>roll = 3, event_name = ''fine'', moneyChange = -150, event_buff = None\<rparr>,
     \<lparr>roll = 4, event_name = ''shortcut'', moneyChange = 100, event_buff = None\<rparr>,
     \<lparr>roll = 5, event_name = ''scenic'', moneyChange = 0, event_buff = Some BuffTrue\<rparr>,
     \<lparr>roll = 6, event_name = ''podcasts'', moneyChange = 0, event_buff = Some (BuffNum 2)\<rparr>]"

definition QUARTER_EVENTS :: "GameEvent list" where
  "QUARTER_EVENTS =
    [\<lparr>roll = 1, event_name = ''crash'', moneyChange = -1500, event_buff = None\<rparr>,
     \<lparr>roll = 2, event_name = ''competitor'', moneyChange = -1000, event_buff = None\<rparr>,
     \<lparr>roll = 3, event_name = ''recall'', moneyChange = -500, event_buff = None\<rparr>,
     \<lparr>roll = 4, event_name = ''quiet'', moneyChange = 0, event_buff = None\<rparr>,
     \<lparr>roll = 5, event_name = ''press'', moneyChange = 800, event_buff = None\<rparr>,
     \<lparr>roll = 6, event_name = ''referral'', moneyChange = 500, event_buff = None\<rparr>]"

definition LUCKY_ITEMS :: "GameEvent list" where
  "LUCKY_ITEMS =
    [\<lparr>roll = 1, event_name = ''watch'', moneyChange = 200, event_buff = None\<rparr>,
     \<lparr>roll = 2, event_name = ''spill'', moneyChange = -50, event_buff = None\<rparr>,
     \<lparr>roll = 3, event_name = ''clover'', moneyChange = 0, event_buff = Some BuffTrue\<rparr>,
     \<lparr>roll = 4, event_name = ''usb'', moneyChange = 0, event_buff = Some BuffTrue\<rparr>,
     \<lparr>roll = 5, event_name = ''parking'', moneyChange = 0, event_buff = None\<rparr>,
     \<lparr>roll = 6, event_name = ''bird'', moneyChange = 100, event_buff = None\<rparr>]"

text \<open>\<open>TABLE.find(e => e.roll === r) || TABLE[i]\<close>.\<close>

definition findEvent :: "GameEvent list \<Rightarrow> int \<Rightarrow> nat \<Rightarrow> GameEvent" where
  "findEvent table r i =
     (case List.find (\<lambda>e. roll e = r) table of Some e \<Rightarrow> e | None \<Rightarrow> table ! i)"

text \<open>
  The two steps every event applier runs on its money change, in the source's order and
  with the source's operators: the Earth step, then the CON step.
\<close>

definition applyJourneyEvent :: "SalesGameState \<Rightarrow> int \<Rightarrow> SalesGameState" where
  "applyJourneyEvent state r =
     (let event = findEvent JOURNEY_EVENTS r 0;
          moneyChange = moneyChange event;
          moneyChange = (if moneyChange < 0 \<and> element (traits (character state)) = Earth
                         then max (moneyChange + 200) 0 else moneyChange);
          moneyChange = (if moneyChange < 0
                         then min 0 (moneyChange + getConAdjustment (character state))
                         else moneyChange);
          mods = (if truthy (event_buff event)
                  then modifiers state @
                       [\<lparr>description = ''Market Intel: +1 to next pitch'', mtype = buff,
                         mvalue = 1, source = ''journey'', phasesRemaining = 2\<rparr>]
                  else modifiers state)
      in state\<lparr>money := money state + moneyChange,
               journeyEvent := Some (event_name event),
               modifiers := mods\<rparr>)"

text \<open>Decimal rendering of an integer, as a template literal prints a number.\<close>

fun digits :: "nat \<Rightarrow> string" where
  "digits n = (if n < 10 then [char_of (48 + n)] else digits (n div 10) @ [char_of (48 + n mod 10)])"

declare digits.simps [simp del]

definition numToString :: "int \<Rightarrow> string" where
  "numToString i = (if i < 0 then CHR ''-'' # digits (nat (- i)) else digits (nat i))"

definition applyDriveTrouble :: "SalesGameState \<Rightarrow> int \<Rightarrow> SalesGameState" where
  "applyDriveTrouble state r =
     (let event = findEvent DRIVE_TROUBLE_EVENTS r 0;
          moneyChange = moneyChange event;
          moneyChange = (if moneyChange < 0 \<and> element (traits (character state)) = Earth
                         then max (moneyChange + 200) 0 else moneyChange);
          moneyChange = (if moneyChange < 0
                         then min 0 (moneyChange + getConAdjustment (character state))
                         else moneyChange);
          mods = (if truthy (event_buff event)
                  then (let buffValue = (case event_buff event of Some (BuffNum n) \<Rightarrow> n | _ \<Rightarrow> 1)
                        in modifiers state @
                           [\<lparr>description = ''Drive Bonus: +'' @ numToString buffValue @ '' to first pitch'',
                             mtype = buff, mvalue = buffValue, source = ''drive'',
                             phasesRemaining = 2\<rparr>])
                  else modifiers state)
      in state\<lparr>money := money state + moneyChange,
               driveTrouble := Some (event_name event),
               modifiers := mods\<rparr>)"

definition applyQuarterEvent :: "SalesGameState \<Rightarrow> int \<Rightarrow> SalesGameState" where
  "applyQuarterEvent state r =
     (let event = findEvent QUARTER_EVENTS r 3;
          moneyChange = moneyChange event;
          moneyChange = (if moneyChange < 0 \<and> element (traits (character state)) = Earth
                         then max (moneyChange + 200) 0 else moneyChange);
          moneyChange = (if moneyChange < 0
                         then min 0 (moneyChange + getConAdjustment (character state))
                         else moneyChange)
      in state\<lparr>money := money state + moneyChange,
               quarterEvent := Some (event_name event)\<rparr>)"

definition applyLuckyItem :: "SalesGameState \<Rightarrow> int \<Rightarrow> SalesGameState" where
  "applyLuckyItem state r =
     (let item = findEvent LUCKY_ITEMS r 4;
          moneyChange = moneyChange item;
          moneyChange = (if moneyChange < 0 \<and> element (traits (character state)) = Earth
                         then max (moneyChange + 200) 0 else moneyChange);
          moneyChange = (if moneyChange < 0
                         then min 0 (moneyChange + getConAdjustment (character state))
                         else moneyChange);
          mods = (if truthy (event_buff item)
                  then modifiers state @
                       [\<lparr>description = ''Lucky Item ('' @ event_name item @ ''): +1 to pitches'',
                         mtype = buff, mvalue = 1, source = ''lucky'', phasesRemaining = 99\<rparr>]
                  else modifiers state)
      in state\<lparr>money := money state + moneyChange,
               luckyItem := Some (event_name item),
               modifiers := mods\<rparr>)"


section \<open>Phase transitions (src/lib/sales/engine.ts)\<close>

fun PHASE_FLOW :: "Phase \<Rightarrow> Phase option" where
  "PHASE_FLOW assignment = Some first_trip"
| "PHASE_FLOW first_trip = Some first_client"
| "PHASE_FLOW first_client = Some crossroads"
| "PHASE_FLOW crossroads = Some quarter_event"
| "PHASE_FLOW quarter_event = Some vp_meeting"
| "PHASE_FLOW vp_meeting = Some whale_prep"
| "PHASE_FLOW whale_prep = Some whale"
| "PHASE_FLOW whale = Some quarter_end"
| "PHASE_FLOW quarter_end = None"

definition tickModifiers :: "ActiveModifier list \<Rightarrow> ActiveModifier list" where
  "tickModifiers ms =
     filter (\<lambda>m. phasesRemaining m > 0)
       (map (\<lambda>m. m\<lparr>phasesRemaining := phasesRemaining m - 1\<rparr>) ms)"

text \<open>
  \<open>advancePhase\<close>. \<open>Date.now()\<close> is the parameter \<open>now\<close>. The source function contains
  no \<open>throw\<close>; the result is a sum all the same, so that "raises an error" is a statement
  about it: both branches return on the right.
\<close>

definition advancePhase :: "int \<Rightarrow> SalesGameState \<Rightarrow> error + SalesGameState" where
  "advancePhase now state =
     (case PHASE_FLOW (currentPhase state) of
        None \<Rightarrow> Inr (state\<lparr>endedAt := Some now\<rparr>)
      | Some nextPhase \<Rightarrow>
          (let newModifiers = tickModifiers (modifiers state);
               newMoney = money state;
               newMoney = (if element (traits (character state)) = Wood
                           then newMoney + 100 else newMoney)
           in Inr (state\<lparr>currentPhase := nextPhase,
                          modifiers := newModifiers,
                          money := newMoney\<rparr>)))"

section \<open>Crossroads (src/lib/sales/engine.ts)\<close>

datatype StatName = stat_str | stat_dex | stat_con | stat_int | stat_wis | stat_cha

text \<open>\<open>stats[name]\<close>.\<close>

fun statOf :: "CharacterStats \<Rightarrow> StatName \<Rightarrow> StatRoll" where
  "statOf st stat_str = str st"
| "statOf st stat_dex = dex st"
| "statOf st stat_con = con st"
| "statOf st stat_int = int_stat st"
| "statOf st stat_wis = wis st"
| "statOf st stat_cha = cha st"

text \<open>
  The options of the crossroads. The hunt entry of the source has two more fields,
  \<open>whaleBonus: 4\<close> and \<open>whalePenalty: -2\<close>, that no code reads.
\<close>

record CrossroadsOption =
  dc :: int
  successMoney :: int
  failMoney :: int
  stat :: StatName

fun CROSSROADS_OPTIONS :: "CrossroadsChoice \<Rightarrow> CrossroadsOption" where
  "CROSSROADS_OPTIONS grind = \<lparr>dc = 10, successMoney = 1500, failMoney = 800, stat = stat_cha\<rparr>"
| "CROSSROADS_OPTIONS climb = \<lparr>dc = 14, successMoney = 2500, failMoney = 200, stat = stat_int\<rparr>"
| "CROSSROADS_OPTIONS hunt = \<lparr>dc = 16, successMoney = 0, failMoney = 0, stat = stat_wis\<rparr>"

fun crossroadsChoiceStr :: "CrossroadsChoice \<Rightarrow> string" where
  "crossroadsChoiceStr grind = ''grind''"
| "crossroadsChoiceStr climb = ''climb''"
| "crossroadsChoiceStr hunt = ''hunt''"

definition applyCrossroadsChoice ::
  "SalesGameState \<Rightarrow> CrossroadsChoice \<Rightarrow> int \<Rightarrow> SalesGameState" where
  "applyCrossroadsChoice state choice r =
     (let option = CROSSROADS_OPTIONS choice;
          modifier = modifier (statOf (stats (character state)) (stat option));
          total = r + modifier;
          success = (total \<ge> dc option);
          moneyChange = (if success then successMoney option else failMoney option);
          mods = (if choice = hunt
                  then (if success
                        then modifiers state @
                             [\<lparr>description = ''Hunt Success: +4 to Whale negotiations'',
                               mtype = buff, mvalue = 4, source = ''hunt'',
                               phasesRemaining = 99\<rparr>]
                        else modifiers state @
                             [\<lparr>description = ''Hunt Failure: -2 to Whale negotiations'',
                               mtype = debuff, mvalue = -2, source = ''hunt'',
                               phasesRemaining = 99\<rparr>])
                  else modifiers state)
      in state\<lparr>money := money state + moneyChange,
               crossroadsChoice := Some choice,
               crossroadsResult := Some (if success then CheckResult.success else fail),
               modifiers := mods,
               choices := choices state @
                 [''crossroads:'' @ crossroadsChoiceStr choice @ '':'' @
                  (if success then ''success'' else ''fail'')]\<rparr>)"

section \<open>Tier calculation (src/lib/sales/engine.ts)\<close>

text \<open>
  \<open>money / startingMoney\<close> is a JavaScript division: by zero it is an infinity or NaN, not
  an error and not 0. A comparison with NaN is false.
\<close>

datatype jsnum = Finite rat | PosInf | NegInf | NaN

definition js_div :: "int \<Rightarrow> int \<Rightarrow> jsnum" where
  "js_div a b =
     (if b \<noteq> 0 then Finite (of_int a / of_int b)
      else if a > 0 then PosInf else if a < 0 then NegInf else NaN)"

fun js_lt :: "jsnum \<Rightarrow> rat \<Rightarrow> bool" where
  "js_lt (Finite x) t = (x < t)"
| "js_lt PosInf t = False"
| "js_lt NegInf t = True"
| "js_lt NaN t = False"

definition calculateTier :: "int \<Rightarrow> SalesGameState \<Rightarrow> SalesGameState" where
  "calculateTier now state =
     (let ratio = js_div (money state) (startingMoney state);
          t = (if money state \<le> 0 then fired
               else if js_lt ratio 1 then under_review
               else if js_lt ratio promotionThreshold then employed
               else if js_lt ratio legendaryThreshold \<or> \<not> legendaryUnlocked state then promotion
               else legendary)
      in state\<lparr>tier := Some t, endedAt := Some now\<rparr>)"


section \<open>Spirit abilities (src/lib/sales/engine.ts)\<close>

fun spiritStr :: "SpiritAnimal \<Rightarrow> string" where
  "spiritStr Wolf = ''Wolf''"
| "spiritStr Bear = ''Bear''"
| "spiritStr Eagle = ''Eagle''"
| "spiritStr Dragon = ''Dragon''"
| "spiritStr Octopus = ''Octopus''"
| "spiritStr Owl = ''Owl''"
| "spiritStr Tiger = ''Tiger''"
| "spiritStr Deer = ''Deer''"
| "spiritStr Spider = ''Spider''"
| "spiritStr Whale = ''Whale''"
| "spiritStr Elephant = ''Elephant''"
| "spiritStr Frog = ''Frog''"

text \<open>\<open>state.firstClientRounds || []\<close>.\<close>

definition orEmpty :: "'a list option \<Rightarrow> 'a list" where
  "orEmpty xs = (case xs of None \<Rightarrow> [] | Some ys \<Rightarrow> ys)"

text \<open>
  The \<open>switch\<close> of \<open>useSpiritAbility\<close>: for each spirit, the money gained and the state
  after the case's writes to \<open>newState.modifiers\<close>. \<open>fmt\<close> is the host's
  \<open>toLocaleString\<close>, which depends on the locale; the narrative text is left out.
\<close>

fun spiritSwitch ::
  "(int \<Rightarrow> string) \<Rightarrow> SalesGameState \<Rightarrow> SalesGameState \<Rightarrow> int \<Rightarrow> SpiritAnimal
     \<Rightarrow> int \<times> SalesGameState" where
  "spiritSwitch fmt state newState wisMod Wolf =
     (let wolfBase = 2000; wolfEnhanced = max 0 (wolfBase + wisMod * 500)
      in (wolfEnhanced, newState))"
| "spiritSwitch fmt state newState wisMod Bear =
     (0, newState\<lparr>modifiers := modifiers newState @
        [\<lparr>description = ''Bear Presence: Client cannot object this round'', mtype = buff,
          mvalue = 99, source = ''spirit'', phasesRemaining = 1\<rparr>]\<rparr>)"
| "spiritSwitch fmt state newState wisMod Eagle =
     (0, newState\<lparr>modifiers := modifiers newState @
        [\<lparr>description = ''Eagle Eye: Auto-succeed next check'', mtype = buff,
          mvalue = 99, source = ''spirit'', phasesRemaining = 1\<rparr>]\<rparr>)"
| "spiritSwitch fmt state newState wisMod Dragon =
     (let dragonBase = 5000; dragonEnhanced = max 0 (dragonBase + wisMod * 500)
      in (dragonEnhanced, newState))"
| "spiritSwitch fmt state newState wisMod Octopus =
     (0, newState\<lparr>modifiers := modifiers newState @
        [\<lparr>description = ''Octopus Escape: Exit any negotiation without loss'', mtype = buff,
          mvalue = 0, source = ''spirit'', phasesRemaining = 99\<rparr>]\<rparr>)"
| "spiritSwitch fmt state newState wisMod Owl =
     (let owlBase = 1500; owlEnhanced = max 0 (owlBase + wisMod * 500)
      in (owlEnhanced, newState))"
| "spiritSwitch fmt state newState wisMod Tiger =
     (let tigerBase = 3000; tigerEnhanced = max 0 (tigerBase + wisMod * 500)
      in (0, newState\<lparr>modifiers := modifiers newState @
        [\<lparr>description = ''Tiger Strike: +$'' @ fmt tigerEnhanced @ '' on next deal'',
          mtype = buff, mvalue = tigerEnhanced, source = ''spirit'',
          phasesRemaining = 99\<rparr>]\<rparr>))"
| "spiritSwitch fmt state newState wisMod Deer =
     (0, newState\<lparr>modifiers := modifiers newState @
        [\<lparr>description = ''Deer Grace: Close current deal at 50%'', mtype = buff,
          mvalue = 50, source = ''spirit'', phasesRemaining = 1\<rparr>]\<rparr>)"
| "spiritSwitch fmt state newState wisMod Spider =
     (0, newState\<lparr>modifiers := modifiers newState @
        [\<lparr>description = ''Spider Web: Deal value protected this round'', mtype = buff,
          mvalue = 0, source = ''spirit'', phasesRemaining = 1\<rparr>]\<rparr>)"
| "spiritSwitch fmt state newState wisMod Whale =
     (let whaleBase = 4000; whaleEnhanced = max 0 (whaleBase + wisMod * 500)
      in (whaleEnhanced, newState))"
| "spiritSwitch fmt state newState wisMod Elephant =
     (let successfulRounds =
            int (length (filter (\<lambda>r. moneyGained r > 0)
                   (orEmpty (firstClientRounds state) @ orEmpty (whaleRounds state))));
          elephantPerSuccess = max 0 (1000 + wisMod * 200)
      in (successfulRounds * elephantPerSuccess, newState))"
| "spiritSwitch fmt state newState wisMod Frog =
     (let frogBase = 800; frogEnhanced = max 0 (frogBase + wisMod * 100)
      in (0, newState\<lparr>modifiers := modifiers newState @
        [\<lparr>description = ''Frog Fortune: +$'' @ fmt frogEnhanced @ '' per round for 3 rounds'',
          mtype = buff, mvalue = frogEnhanced, source = ''spirit'',
          phasesRemaining = 3\<rparr>]\<rparr>))"

text \<open>
  The value \<open>useSpiritAbility\<close> returns, without the narrative; \<open>moneyGained\<close> is
  \<open>undefined\<close> (\<open>None\<close>) when nothing was gained.
\<close>

record SpiritAbilityResult =
  result_state :: SalesGameState
  result_moneyGained :: "int option"

definition useSpiritAbility ::
  "(int \<Rightarrow> string) \<Rightarrow> SalesGameState \<Rightarrow> error + SpiritAbilityResult" where
  "useSpiritAbility fmt state =
     (if spiritAbilityUsed state then Inl (Error ''Spirit ability already used'')
      else
        (let spirit = spiritAnimal (traits (character state));
             wisMod = modifier (wis (stats (character state)));
             newState = state\<lparr>spiritAbilityUsed := True\<rparr>;
             (gained, newState) = spiritSwitch fmt state newState wisMod spirit;
             newState = newState\<lparr>money := money newState + gained\<rparr>;
             newState = newState\<lparr>choices := choices newState @ [''spirit:'' @ spiritStr spirit]\<rparr>
         in Inr \<lparr>result_state = newState,
                 result_moneyGained = (if gained > 0 then Some gained else None)\<rparr>))"

section \<open>Negotiation (src/lib/sales/negotiation.ts, src/lib/sales/clients.ts)\<close>

definition interpretBodyLanguage :: "int \<Rightarrow> BodyLanguage" where
  "interpretBodyLanguage r =
     (if r = 1 then arms_crossed
      else if r = 2 then skeptical
      else if r = 3 \<or> r = 4 then neutral
      else if r = 5 then interested
      else engaged)"

definition applyBodyLanguage :: "Client \<Rightarrow> BodyLanguage \<Rightarrow> Client" where
  "applyBodyLanguage client bl =
     (let (newPatience, newResistance, dealBonus) =
            (case bl of
               arms_crossed \<Rightarrow> (max 0 (patience client - 2), resistance client + 1, 0)
             | skeptical \<Rightarrow> (patience client, resistance client + 2, 0)
             | neutral \<Rightarrow> (patience client, resistance client, 0)
             | interested \<Rightarrow> (patience client, max 5 (resistance client - 1), 0)
             | engaged \<Rightarrow> (patience client, max 5 (resistance client - 2),
                            \<lfloor>of_int (dealValue client) * (1 / 10 :: rat)\<rfloor>))
      in client\<lparr>patience := newPatience,
                resistance := newResistance,
                dealValue := dealValue client + dealBonus,
                active := (newPatience > 0)\<rparr>)"

text \<open>\<open>Math.floor(m / 2)\<close> on an integer is \<open>m div 2\<close>, which rounds down.\<close>

definition shiftBodyLanguageRoll :: "int \<Rightarrow> int \<Rightarrow> int \<Rightarrow> int \<Rightarrow> int" where
  "shiftBodyLanguageRoll rawRoll dexMod wisMod negotiationRound =
     (let shift = dexMod div 2;
          shift = (if negotiationRound \<ge> 2 then shift + wisMod div 2 else shift)
      in max 1 (min 6 (rawRoll + shift)))"

fun getTerritoryFavoredStat :: "Territory \<Rightarrow> StatName" where
  "getTerritoryFavoredStat tech = stat_int"
| "getTerritoryFavoredStat retail = stat_cha"
| "getTerritoryFavoredStat finance = stat_wis"

text \<open>\<open>toLowerCase\<close> on the ASCII strings the engine builds, and \<open>includes\<close> (here \<open>includes_str\<close>).\<close>

definition toLowerChar :: "char \<Rightarrow> char" where
  "toLowerChar c =
     (let n = (of_char c :: nat) in if 65 \<le> n \<and> n \<le> 90 then char_of (n + 32) else c)"

definition toLowerCase :: "string \<Rightarrow> string" where
  "toLowerCase s = map toLowerChar s"

fun startsWith :: "string \<Rightarrow> string \<Rightarrow> bool" where
  "startsWith s [] = True"
| "startsWith [] (p # ps) = False"
| "startsWith (c # cs) (p # ps) = (c = p \<and> startsWith cs ps)"

fun includes_str :: "string \<Rightarrow> string \<Rightarrow> bool" where
  "includes_str [] sub = (sub = [])"
| "includes_str (c # cs) sub = (startsWith (c # cs) sub \<or> includes_str cs sub)"

text \<open>The test of the loop in \<open>getPitchModifier\<close>, and the loop as a fold over the ledger.\<close>

definition isPitchBuff :: "ActiveModifier \<Rightarrow> bool" where
  "isPitchBuff m =
     (mtype m = buff \<and>
      (source m = ''travel'' \<or> source m = ''listen'' \<or>
       includes_str (toLowerCase (description m)) ''pitch''))"

definition getPitchModifier ::
  "StoredCharacter \<Rightarrow> Territory \<Rightarrow> ActiveModifier list \<Rightarrow> int \<Rightarrow> int" where
  "getPitchModifier ch terr mods negotiationRound =
     (let md = modifier (cha (stats ch));
          favoredStat = getTerritoryFavoredStat terr;
          favoredMod = modifier (statOf (stats ch) favoredStat);
          md = (if favoredMod > md then favoredMod else md);
          md = (if negotiationRound \<ge> 2 then md + modifier (int_stat (stats ch)) else md)
      in foldl (\<lambda>md m. if isPitchBuff m then md + mvalue m else md) md mods)"

definition isDealBuff :: "ActiveModifier \<Rightarrow> bool" where
  "isDealBuff m =
     (mtype m = buff \<and>
      (source m = ''element'' \<or> includes_str (toLowerCase (description m)) ''deal''))"

definition calculatePitchValue ::
  "Client \<Rightarrow> int \<Rightarrow> ActiveModifier list \<Rightarrow> int \<Rightarrow> int" where
  "calculatePitchValue client rollTotal mods strModifier =
     (let margin = rollTotal - resistance client;
          baseValue = \<lfloor>of_int (budget client) * (15 / 100 :: rat)\<rfloor>;
          marginBonus = min (of_int margin * (5 / 100 :: rat)) (25 / 100);
          v = \<lfloor>of_int baseValue * (1 + marginBonus)\<rfloor>;
          v = v + strModifier * 100;
          v = foldl (\<lambda>v m. if isDealBuff m then v + mvalue m else v) v mods
      in max v 100)"

record PitchResult =
  pitch_client :: Client
  pitch_moneyGained :: int
  pitch_bodyLanguage :: BodyLanguage

definition resolvePitch ::
  "SalesGameState \<Rightarrow> Client \<Rightarrow> int \<Rightarrow> int \<Rightarrow> int \<Rightarrow> PitchResult" where
  "resolvePitch state client pitchRoll bodyLanguageRoll negotiationRound =
     (let md = getPitchModifier (character state) (client_territory client) (modifiers state)
                 negotiationRound;
          total = pitchRoll + md;
          success = (total \<ge> resistance client);
          strMod = modifier (str (stats (character state)));
          dexMod = modifier (dex (stats (character state)));
          wisMod = modifier (wis (stats (character state)));
          shiftedBodyRoll = shiftBodyLanguageRoll bodyLanguageRoll dexMod wisMod negotiationRound;
          bl = interpretBodyLanguage shiftedBodyRoll;
          updatedClient = applyBodyLanguage client bl;
          gained = (if success then calculatePitchValue client total (modifiers state) strMod
                    else 0);
          updatedClient =
            (if success
             then updatedClient\<lparr>dealValue := dealValue updatedClient + gained,
                                patience := max 0 (patience updatedClient - 1)\<rparr>
             else updatedClient\<lparr>patience := max 0 (patience updatedClient - 1)\<rparr>);
          updatedClient = (if patience updatedClient \<le> 0
                           then updatedClient\<lparr>active := False\<rparr> else updatedClient)
      in \<lparr>pitch_client = updatedClient, pitch_moneyGained = gained,
          pitch_bodyLanguage = bl\<rparr>)"

record ListenResult =
  listen_client :: Client
  listen_modifier :: ActiveModifier
  listen_bodyLanguage :: BodyLanguage

definition resolveListen ::
  "SalesGameState \<Rightarrow> Client \<Rightarrow> int \<Rightarrow> int \<Rightarrow> ListenResult" where
  "resolveListen state client bodyLanguageRoll negotiationRound =
     (let dexMod = modifier (dex (stats (character state)));
          wisMod = modifier (wis (stats (character state)));
          shiftedBodyRoll = shiftBodyLanguageRoll bodyLanguageRoll dexMod wisMod negotiationRound;
          bl = interpretBodyLanguage shiftedBodyRoll;
          updatedClient = applyBodyLanguage client bl;
          md = \<lparr>description = ''Listen Bonus: +2 to next pitch'', mtype = buff, mvalue = 2,
                source = ''listen'', phasesRemaining = 1\<rparr>
      in \<lparr>listen_client = updatedClient, listen_modifier = md, listen_bodyLanguage = bl\<rparr>)"

section \<open>Dice derivation for game rolls (src/lib/dice.ts)\<close>

text \<open>
  \<open>deriveDice\<close>. \<open>hash\<close> is a 32-bit integer: \<open>hash << 5\<close> and \<open>hash & hash\<close>
  convert to int32, and the sum in between is exact in a double, so each step is
  arithmetic modulo \<open>2 ^ 32\<close>. \<open>hash >>> 0\<close> reads the word as unsigned. Strings are the
  hexadecimal seeds and ASCII labels the game passes. \<open>x % 0\<close> is NaN, the value \<open>None\<close>.
\<close>

definition hashStep :: "32 word \<Rightarrow> char \<Rightarrow> 32 word" where
  "hashStep hash c =
     (let ch = of_char c;
          hash = (push_bit 5 hash - hash) + ch;
          hash = and hash hash
      in hash)"

definition deriveDice :: "string \<Rightarrow> string \<Rightarrow> string \<Rightarrow> nat \<Rightarrow> nat option" where
  "deriveDice seed blockHash label dieSize =
     (let combined = seed @ blockHash @ label;
          hash = foldl hashStep 0 combined;
          positive = unat hash
      in if dieSize = 0 then None else Some (positive mod dieSize + 1))"


section \<open>The tier rule in the words of the specification\<close>

text \<open>
  The tier as the specification words it, a function of final money, starting money and the
  unlock flag, with \<open>ratio = money / startingMoney\<close> an exact quotient and the thresholds
  2 and 3; to be compared with \<open>calculateTier\<close>.
\<close>

definition specTier :: "int \<Rightarrow> int \<Rightarrow> bool \<Rightarrow> Tier" where
  "specTier m s unlocked =
     (let ratio = (of_int m / of_int s :: rat)
      in if m \<le> 0 then fired
         else if ratio < 1 then under_review
         else if ratio < 2 then employed
         else if ratio < 3 \<or> \<not> unlocked then promotion
         else legendary)"


section \<open>Concrete characters and states\<close>

text \<open>
  A character with every modifier 0 and an element without a passive rule, a fresh game
  for it, and the same game with another CON, WIS or STR modifier, another element or
  another spirit animal.
\<close>

definition exampleCharacter :: StoredCharacter where
  "exampleCharacter = \<lparr>name = ''Ada'',
     stats = \<lparr>str = \<lparr>modifier = 0\<rparr>, dex = \<lparr>modifier = 0\<rparr>, con = \<lparr>modifier = 0\<rparr>,
              int_stat = \<lparr>modifier = 0\<rparr>, wis = \<lparr>modifier = 0\<rparr>, cha = \<lparr>modifier = 0\<rparr>\<rparr>,
     traits = \<lparr>element = Water, spiritAnimal = Wolf, sex = Female\<rparr>\<rparr>"

definition exampleState :: SalesGameState where
  "exampleState = \<lparr>character = exampleCharacter, currentPhase = assignment,
     startingMoney = 10000, budgetScale = 1,
     money = 10000, territory = None, vpChoice = None, legendaryUnlocked = False,
     spiritAbilityUsed = False, modifiers = [], choices = [], travelChoice = None,
     travelBonus = None, journeyEvent = None, driveTrouble = None, firstClient = None,
     firstClientRounds = None, crossroadsChoice = None, crossroadsResult = None,
     quarterEvent = None, whaleInvestment = None, luckyItem = None, whaleClient = None,
     whaleRounds = None, tier = None, endedAt = None\<rparr>"

definition withCon :: "int \<Rightarrow> SalesGameState \<Rightarrow> SalesGameState" where
  "withCon c s = s\<lparr>character := (character s)\<lparr>stats := (stats (character s))\<lparr>con := \<lparr>modifier = c\<rparr>\<rparr>\<rparr>\<rparr>"

definition withElement :: "Element \<Rightarrow> SalesGameState \<Rightarrow> SalesGameState" where
  "withElement e s = s\<lparr>character := (character s)\<lparr>traits := (traits (character s))\<lparr>element := e\<rparr>\<rparr>\<rparr>"

definition withWis :: "int \<Rightarrow> SalesGameState \<Rightarrow> SalesGameState" where
  "withWis w s = s\<lparr>character := (character s)\<lparr>stats := (stats (character s))\<lparr>wis := \<lparr>modifier = w\<rparr>\<rparr>\<rparr>\<rparr>"

definition withSpirit :: "SpiritAnimal \<Rightarrow> SalesGameState \<Rightarrow> SalesGameState" where
  "withSpirit a s = s\<lparr>character := (character s)\<lparr>traits := (traits (character s))\<lparr>spiritAnimal := a\<rparr>\<rparr>\<rparr>"

definition withStr :: "int \<Rightarrow> SalesGameState \<Rightarrow> SalesGameState" where
  "withStr w s = s\<lparr>character := (character s)\<lparr>stats := (stats (character s))\<lparr>str := \<lparr>modifier = w\<rparr>\<rparr>\<rparr>\<rparr>"

text \<open>
  The first template of the tech territory, unscaled; and the third retail template with
  the budget \<open>\<lfloor>2200 * 1.55\<rfloor> = 3410\<close> that a starting money of 15500 gives it.
\<close>

definition exampleClient :: Client where
  "exampleClient = \<lparr>client_name = ''StartupBot Inc.'', client_territory = tech, patience = 5,
     maxPatience = 5, budget = 3000, resistance = 12, dealValue = 0, active = True\<rparr>"


lemmas fixture_defs = exampleCharacter_def exampleState_def withCon_def withElement_def
  withWis_def withSpirit_def withStr_def

section \<open>Setbacks: what CON and Earth do to a loss\<close>

lemma money_removeMoney:
  "money (removeMoney state amount) =
     money state -
       (let L = (if element (traits (character state)) = Earth then max 0 (amount - 200) else amount)
        in if 0 < L then max 0 (L - getConAdjustment (character state)) else L)"
  by (simp add: removeMoney_def Let_def)

lemma con_step_closed_form:
  fixes L c :: int
  assumes "0 \<le> L"
  shows "(if 0 < L then max 0 (L - c) else L) = max 0 (L - max 0 c) + (if 0 < L then max 0 (- c) else 0)"
  using assms by (auto simp: max_def)

lemma event_con_step:
  fixes mc c :: int
  assumes "mc < 0"
  shows "min 0 (mc + c) = - (max 0 (- mc - max 0 c) + max 0 (- c))"
  using assms by (auto simp: max_def min_def)

lemma money_applyJourneyEvent:
  "money (applyJourneyEvent state r) =
     money state +
       (let mc = moneyChange (findEvent JOURNEY_EVENTS r 0);
            mc = (if mc < 0 \<and> element (traits (character state)) = Earth then max (mc + 200) 0 else mc)
        in if mc < 0 then min 0 (mc + getConAdjustment (character state)) else mc)"
  by (simp add: applyJourneyEvent_def Let_def)

lemma money_applyDriveTrouble:
  "money (applyDriveTrouble state r) =
     money state +
       (let mc = moneyChange (findEvent DRIVE_TROUBLE_EVENTS r 0);
            mc = (if mc < 0 \<and> element (traits (character state)) = Earth then max (mc + 200) 0 else mc)
        in if mc < 0 then min 0 (mc + getConAdjustment (character state)) else mc)"
  by (simp add: applyDriveTrouble_def Let_def)

lemma money_applyQuarterEvent:
  "money (applyQuarterEvent state r) =
     money state +
       (let mc = moneyChange (findEvent QUARTER_EVENTS r 3);
            mc = (if mc < 0 \<and> element (traits (character state)) = Earth then max (mc + 200) 0 else mc)
        in if mc < 0 then min 0 (mc + getConAdjustment (character state)) else mc)"
  by (simp add: applyQuarterEvent_def Let_def)

lemma money_applyLuckyItem:
  "money (applyLuckyItem state r) =
     money state +
       (let mc = moneyChange (findEvent LUCKY_ITEMS r 4);
            mc = (if mc < 0 \<and> element (traits (character state)) = Earth then max (mc + 200) 0 else mc)
        in if mc < 0 then min 0 (mc + getConAdjustment (character state)) else mc)"
  by (simp add: applyLuckyItem_def Let_def)


text \<open>
  Claim C1, the CON-resilience rule. For a loss \<open>amount \<ge> 0\<close> let \<open>L\<close> be the loss that
  enters the CON step of \<open>removeMoney\<close> (the amount, less 200 and floored at 0 for an
  Earth character) and \<open>c = CON_mod * 100\<close>. The loss taken from money is
  \<open>max 0 (L - max 0 c)\<close>, plus \<open>- c\<close> when \<open>c\<close> is negative and \<open>L\<close> is positive: never
  negative, never more than \<open>amount\<close> when \<open>c \<ge> 0\<close>, and larger than \<open>L\<close> by \<open>- c\<close> for a
  negative CON modifier. The CON step of the four event appliers does the same to a negative
  table entry, for every character that is not of the Earth element.
\<close>

theorem con_resilience_actual_loss:
  assumes "0 \<le> amount"
  shows "(let c = getConAdjustment (character state);
              L = (if element (traits (character state)) = Earth
                   then max 0 (amount - 200) else amount);
              loss = money state - money (removeMoney state amount)
          in loss = max 0 (L - max 0 c) + (if 0 < L then max 0 (- c) else 0)
             \<and> 0 \<le> loss \<and> loss \<le> amount + max 0 (- c))
         \<and> (element (traits (character state)) \<noteq> Earth \<longrightarrow>
            (let c = getConAdjustment (character state);
                 afterCon = (\<lambda>mc. if mc < 0 then - (max 0 (- mc - max 0 c) + max 0 (- c)) else mc)
             in money (applyJourneyEvent state r) =
                  money state + afterCon (moneyChange (findEvent JOURNEY_EVENTS r 0))
                \<and> money (applyDriveTrouble state r) =
                  money state + afterCon (moneyChange (findEvent DRIVE_TROUBLE_EVENTS r 0))
                \<and> money (applyQuarterEvent state r) =
                  money state + afterCon (moneyChange (findEvent QUARTER_EVENTS r 3))
                \<and> money (applyLuckyItem state r) =
                  money state + afterCon (moneyChange (findEvent LUCKY_ITEMS r 4))))"
proof -
  let ?c = "getConAdjustment (character state)"
  let ?L = "if element (traits (character state)) = Earth then max 0 (amount - 200) else amount"
  have L0: "0 \<le> ?L" using assms by simp
  have LA: "?L \<le> amount" using assms by simp
  have loss: "money state - money (removeMoney state amount)
                = max 0 (?L - max 0 ?c) + (if 0 < ?L then max 0 (- ?c) else 0)"
    using con_step_closed_form [OF L0, of ?c] by (simp add: money_removeMoney Let_def)
  have bounds: "0 \<le> max 0 (?L - max 0 ?c) + (if 0 < ?L then max 0 (- ?c) else 0)"
    "max 0 (?L - max 0 ?c) + (if 0 < ?L then max 0 (- ?c) else 0) \<le> amount + max 0 (- ?c)"
    using L0 LA by (auto simp: max_def)
  have part1: "(let c = ?c; L = ?L; loss = money state - money (removeMoney state amount)
          in loss = max 0 (L - max 0 c) + (if 0 < L then max 0 (- c) else 0)
             \<and> 0 \<le> loss \<and> loss \<le> amount + max 0 (- c))"
    unfolding Let_def using loss bounds by simp
  have part2: "element (traits (character state)) \<noteq> Earth \<longrightarrow>
            (let c = ?c;
                 afterCon = (\<lambda>mc. if mc < 0 then - (max 0 (- mc - max 0 c) + max 0 (- c)) else mc)
             in money (applyJourneyEvent state r) =
                  money state + afterCon (moneyChange (findEvent JOURNEY_EVENTS r 0))
                \<and> money (applyDriveTrouble state r) =
                  money state + afterCon (moneyChange (findEvent DRIVE_TROUBLE_EVENTS r 0))
                \<and> money (applyQuarterEvent state r) =
                  money state + afterCon (moneyChange (findEvent QUARTER_EVENTS r 3))
                \<and> money (applyLuckyItem state r) =
                  money state + afterCon (moneyChange (findEvent LUCKY_ITEMS r 4)))"
    by (simp add: money_applyJourneyEvent money_applyDriveTrouble money_applyQuarterEvent
          money_applyLuckyItem Let_def event_con_step)
  from part1 part2 show ?thesis by blast
qed

text \<open>
  The rule at a CON modifier of -1: a loss of 100 in \<open>removeMoney\<close> costs 200, the market
  crash of 1500 costs 1600, and a journey without a setback costs nothing.
\<close>

theorem con_resilience_actual_loss_witness:
  "(0::int) \<le> 100
   \<and> element (traits (character (withCon (-1) exampleState))) \<noteq> Earth
   \<and> money (removeMoney (withCon (-1) exampleState) 100) = 9800
   \<and> money (applyQuarterEvent (withCon (-1) exampleState) 1) = 8400
   \<and> money (applyJourneyEvent (withCon (-1) exampleState) 1) = 10000"
  using con_resilience_actual_loss [of 100 "withCon (-1) exampleState" 1]
  by (simp add: fixture_defs getConAdjustment_def findEvent_def QUARTER_EVENTS_def
        JOURNEY_EVENTS_def DRIVE_TROUBLE_EVENTS_def LUCKY_ITEMS_def)

text \<open>
  With a CON modifier of -1 a loss of 100 takes 200 from money, where
  \<open>max 0 (L - max 0 c)\<close> is 100: the loss is enlarged.
\<close>

theorem con_resilience_counterexample:
  "money (withCon (-1) exampleState) - money (removeMoney (withCon (-1) exampleState) 100) = 200
   \<and> max 0 (100 - max 0 (getConAdjustment (character (withCon (-1) exampleState)))) = (100::int)"
  by (simp add: fixture_defs removeMoney_def getConAdjustment_def)

text \<open>
  What the Earth step of an event applier makes of a table entry, for every Earth character
  and every roll: a negative entry \<open>mc\<close> becomes \<open>max (mc + 200) 0\<close>, which is never
  negative, so the CON step never runs and money never goes down.
\<close>

lemma earth_event_money:
  assumes "element (traits (character state)) = Earth"
  shows "money (applyQuarterEvent state r) =
           money state + (let mc = moneyChange (findEvent QUARTER_EVENTS r 3)
                          in if mc < 0 then max (mc + 200) 0 else mc)"
    and "money state \<le> money (applyQuarterEvent state r)"
  using assms by (simp_all add: money_applyQuarterEvent Let_def)

text \<open>
  Claim C2, the Earth reduction in the event appliers, evaluated. The Earth step is
  \<open>max (moneyChange + 200) 0\<close> on a negative \<open>moneyChange\<close>: the market crash of 1500
  costs an Earth character nothing (not 1300), the breakdown of 400 nothing (not 200), the
  lost luggage of 100 pays 100 and the coffee spill of 50 pays 150. \<open>removeMoney\<close>, with
  \<open>max 0 (amount - 200)\<close> on the loss, takes 1300 of a loss of 1500.
\<close>

theorem earth_reduction_evaluated:
  "money (applyQuarterEvent (withElement Earth exampleState) 1) = 10000
   \<and> money (applyJourneyEvent (withElement Earth exampleState) 4) = 10100
   \<and> money (applyDriveTrouble (withElement Earth exampleState) 1) = 10000
   \<and> money (applyLuckyItem (withElement Earth exampleState) 2) = 10150
   \<and> money (removeMoney (withElement Earth exampleState) 1500) = 8700"
  by (simp add: fixture_defs applyQuarterEvent_def applyJourneyEvent_def applyDriveTrouble_def
        applyLuckyItem_def removeMoney_def getConAdjustment_def findEvent_def QUARTER_EVENTS_def
        JOURNEY_EVENTS_def DRIVE_TROUBLE_EVENTS_def LUCKY_ITEMS_def)


section \<open>The tier\<close>

text \<open>
  For integer money and a positive integer starting money, comparing the quotient with 1, 2
  and 3 is comparing money with one, two and three times the starting money.
\<close>

lemma ratio_less_iff:
  fixes m s k :: int
  assumes "0 < s"
  shows "((of_int m / of_int s :: rat) < of_int k) = (m < k * s)"
proof -
  have "((of_int m / of_int s :: rat) < of_int k) = ((of_int m :: rat) < of_int k * of_int s)"
    using assms by (simp add: pos_divide_less_eq)
  also have "\<dots> = (m < k * s)"
    by (simp only: of_int_mult [symmetric] of_int_less_iff)
  finally show ?thesis .
qed

lemma js_lt_ratio:
  fixes m s k :: int
  assumes "0 < s"
  shows "js_lt (js_div m s) (of_int k) = (m < k * s)"
  using assms ratio_less_iff [OF assms, of m k] by (simp add: js_div_def)

lemma tier_calculateTier:
  "tier (calculateTier now state) =
     Some (let ratio = js_div (money state) (startingMoney state)
           in if money state \<le> 0 then fired
              else if js_lt ratio 1 then under_review
              else if js_lt ratio promotionThreshold then employed
              else if js_lt ratio legendaryThreshold \<or> \<not> legendaryUnlocked state then promotion
              else legendary)"
  by (simp add: calculateTier_def Let_def)

lemma calculateTier_integer_form:
  assumes "0 < startingMoney state"
  shows "tier (calculateTier now state) =
     Some (if money state \<le> 0 then fired
           else if money state < startingMoney state then under_review
           else if money state < 2 * startingMoney state then employed
           else if money state < 3 * startingMoney state \<or> \<not> legendaryUnlocked state then promotion
           else legendary)"
  using js_lt_ratio [OF assms, of "money state" 1] js_lt_ratio [OF assms, of "money state" 2]
    js_lt_ratio [OF assms, of "money state" 3]
  by (simp add: tier_calculateTier promotionThreshold_def legendaryThreshold_def Let_def)

lemma specTier_integer_form:
  assumes "0 < s"
  shows "specTier m s u =
     (if m \<le> 0 then fired
      else if m < s then under_review
      else if m < 2 * s then employed
      else if m < 3 * s \<or> \<not> u then promotion
      else legendary)"
  using ratio_less_iff [OF assms, of m 1] ratio_less_iff [OF assms, of m 2]
    ratio_less_iff [OF assms, of m 3]
  by (simp add: specTier_def Let_def)

text \<open>
  Claim C3, the tier. With a positive starting money, \<open>calculateTier\<close> sets the tier the
  specification's rule gives: Fired for \<open>money \<le> 0\<close>, else UnderReview for \<open>ratio < 1\<close>,
  else Employed for \<open>ratio < 2\<close>, else Promotion for \<open>ratio < 3\<close> or Legendary locked, else
  Legendary. Money of exactly twice the starting money with Legendary unlocked is Promotion;
  exactly three times is Legendary when unlocked and Promotion when not.
\<close>

theorem calculateTier_is_spec_tier:
  assumes "0 < startingMoney state"
  shows "tier (calculateTier now state) =
           Some (specTier (money state) (startingMoney state) (legendaryUnlocked state))
     \<and> tier (calculateTier now (state\<lparr>money := startingMoney state * 2, legendaryUnlocked := True\<rparr>))
         = Some promotion
     \<and> tier (calculateTier now (state\<lparr>money := startingMoney state * 3, legendaryUnlocked := True\<rparr>))
         = Some legendary
     \<and> tier (calculateTier now (state\<lparr>money := startingMoney state * 3, legendaryUnlocked := False\<rparr>))
         = Some promotion"
proof -
  have a: "tier (calculateTier now state) =
           Some (specTier (money state) (startingMoney state) (legendaryUnlocked state))"
    by (simp only: calculateTier_integer_form [OF assms] specTier_integer_form [OF assms])
  have b: "tier (calculateTier now (state\<lparr>money := startingMoney state * 2, legendaryUnlocked := True\<rparr>))
         = Some promotion"
    using assms
      calculateTier_integer_form [of "state\<lparr>money := startingMoney state * 2, legendaryUnlocked := True\<rparr>" now]
    by simp
  have c: "tier (calculateTier now (state\<lparr>money := startingMoney state * 3, legendaryUnlocked := True\<rparr>))
         = Some legendary"
    using assms
      calculateTier_integer_form [of "state\<lparr>money := startingMoney state * 3, legendaryUnlocked := True\<rparr>" now]
    by simp
  have d: "tier (calculateTier now (state\<lparr>money := startingMoney state * 3, legendaryUnlocked := False\<rparr>))
         = Some promotion"
    using assms
      calculateTier_integer_form [of "state\<lparr>money := startingMoney state * 3, legendaryUnlocked := False\<rparr>" now]
    by simp
  from a b c d show ?thesis by blast
qed

text \<open>
  A game that started with 10000: ending with 10000 is Employed, with 20000 Promotion, with
  30000 Legendary when unlocked and Promotion when not.
\<close>

theorem calculateTier_is_spec_tier_witness:
  "0 < startingMoney exampleState
   \<and> tier (calculateTier 0 exampleState) = Some employed
   \<and> tier (calculateTier 0 (exampleState\<lparr>money := 20000, legendaryUnlocked := True\<rparr>)) = Some promotion
   \<and> tier (calculateTier 0 (exampleState\<lparr>money := 30000, legendaryUnlocked := True\<rparr>)) = Some legendary
   \<and> tier (calculateTier 0 (exampleState\<lparr>money := 30000, legendaryUnlocked := False\<rparr>)) = Some promotion"
  using calculateTier_is_spec_tier [of exampleState 0]
  by (simp add: fixture_defs specTier_def)

section \<open>Advancing past the last phase\<close>

text \<open>
  Claim C7, \<open>advancePhase\<close> in the phase \<open>quarter_end\<close>. No error is raised: the function
  returns the state it was given with the end time set, the phase still \<open>quarter_end\<close>, and
  money and modifiers untouched.
\<close>

theorem advancePhase_terminal_returns:
  assumes "currentPhase state = quarter_end"
  shows "advancePhase now state = Inr (state\<lparr>endedAt := Some now\<rparr>)"
  using assms by (simp add: advancePhase_def)

text \<open>A finished game with 25000, advanced at time 7.\<close>

theorem advancePhase_terminal_returns_witness:
  "currentPhase (exampleState\<lparr>currentPhase := quarter_end, money := 25000\<rparr>) = quarter_end
   \<and> advancePhase 7 (exampleState\<lparr>currentPhase := quarter_end, money := 25000\<rparr>)
       = Inr (exampleState\<lparr>currentPhase := quarter_end, money := 25000, endedAt := Some 7\<rparr>)"
  using advancePhase_terminal_returns [of "exampleState\<lparr>currentPhase := quarter_end, money := 25000\<rparr>" 7]
  by simp

text \<open>
  The call on a state in \<open>quarter_end\<close> returns on the right: a state, not an error.
\<close>

theorem advancePhase_terminal_counterexample:
  "advancePhase 1000 (exampleState\<lparr>currentPhase := quarter_end\<rparr>)
     = Inr (exampleState\<lparr>currentPhase := quarter_end, endedAt := Some 1000\<rparr>)"
  by (simp add: advancePhase_def)


section \<open>The spirit ability\<close>

lemma spiritSwitch_flag:
  "spiritAbilityUsed (snd (spiritSwitch fmt state newState w sp)) = spiritAbilityUsed newState"
  by (cases sp) (simp_all add: Let_def)

lemma spiritSwitch_money:
  "money (snd (spiritSwitch fmt state newState w sp)) = money newState"
  by (cases sp) (simp_all add: Let_def)

lemma spiritSwitch_gain_nonneg:
  "0 \<le> fst (spiritSwitch fmt state newState w sp)"
  by (cases sp) (simp_all add: Let_def)

lemma spiritSwitch_modifiers:
  "\<exists>new. modifiers (snd (spiritSwitch fmt state newState w sp)) = modifiers newState @ new
          \<and> list_all (\<lambda>m. 0 \<le> mvalue m) new"
  by (cases sp) (simp_all add: Let_def)

lemma useSpiritAbility_unused:
  assumes "\<not> spiritAbilityUsed state"
  shows "useSpiritAbility fmt state =
     (let sw = spiritSwitch fmt state (state\<lparr>spiritAbilityUsed := True\<rparr>)
                 (modifier (wis (stats (character state)))) (spiritAnimal (traits (character state)))
      in Inr \<lparr>result_state = (snd sw)\<lparr>money := money (snd sw) + fst sw,
                  choices := choices (snd sw) @
                    [''spirit:'' @ spiritStr (spiritAnimal (traits (character state)))]\<rparr>,
              result_moneyGained = (if 0 < fst sw then Some (fst sw) else None)\<rparr>)"
  using assms by (simp add: useSpiritAbility_def Let_def split_beta)

text \<open>
  Claim C8, the single use. On a state whose flag \<open>spiritAbilityUsed\<close> is set,
  \<open>useSpiritAbility\<close> raises the error "Spirit ability already used". On a state whose flag
  is not set it returns, the state it returns has the flag set, and a second call on that
  state raises the error.
\<close>

theorem useSpiritAbility_single_use:
  "(spiritAbilityUsed state \<longrightarrow>
      useSpiritAbility fmt state = Inl (Error ''Spirit ability already used''))
   \<and> (\<not> spiritAbilityUsed state \<longrightarrow>
       (\<exists>r. useSpiritAbility fmt state = Inr r \<and> spiritAbilityUsed (result_state r)
            \<and> useSpiritAbility fmt (result_state r) = Inl (Error ''Spirit ability already used'')))"
proof (intro conjI impI)
  assume "spiritAbilityUsed state"
  then show "useSpiritAbility fmt state = Inl (Error ''Spirit ability already used'')"
    by (simp add: useSpiritAbility_def)
next
  assume unused: "\<not> spiritAbilityUsed state"
  obtain r where r: "useSpiritAbility fmt state = Inr r"
    using useSpiritAbility_unused [OF unused, of fmt] by (simp add: Let_def)
  have flag: "spiritAbilityUsed (result_state r)"
    using r useSpiritAbility_unused [OF unused, of fmt]
    by (auto simp: Let_def spiritSwitch_flag)
  then have "useSpiritAbility fmt (result_state r) = Inl (Error ''Spirit ability already used'')"
    by (simp add: useSpiritAbility_def)
  with r flag show "\<exists>r. useSpiritAbility fmt state = Inr r \<and> spiritAbilityUsed (result_state r)
            \<and> useSpiritAbility fmt (result_state r) = Inl (Error ''Spirit ability already used'')"
    by blast
qed

text \<open>A fresh game: the first use returns, the second raises; so does a use with the flag set.\<close>

theorem useSpiritAbility_single_use_witness:
  "\<not> spiritAbilityUsed exampleState
   \<and> (\<exists>r. useSpiritAbility numToString exampleState = Inr r \<and> spiritAbilityUsed (result_state r)
          \<and> useSpiritAbility numToString (result_state r)
              = Inl (Error ''Spirit ability already used''))
   \<and> spiritAbilityUsed (exampleState\<lparr>spiritAbilityUsed := True\<rparr>)
   \<and> useSpiritAbility numToString (exampleState\<lparr>spiritAbilityUsed := True\<rparr>)
       = Inl (Error ''Spirit ability already used'')"
  using useSpiritAbility_single_use [of exampleState numToString]
    useSpiritAbility_single_use [of "exampleState\<lparr>spiritAbilityUsed := True\<rparr>" numToString]
  by (simp add: fixture_defs)

text \<open>
  Claim C10, the ability never costs money. For every spirit animal and every WIS modifier,
  a use on a state whose flag is not set returns a state whose money is the old money plus a
  gain \<open>g \<ge> 0\<close>; the \<open>moneyGained\<close> it reports is \<open>g\<close> when \<open>g\<close> is positive and absent
  otherwise; and every modifier it appends (Tiger, Frog and the tactical spirits) has a value
  \<open>\<ge> 0\<close>.
\<close>

theorem useSpiritAbility_never_loses_money:
  assumes "\<not> spiritAbilityUsed state"
  shows "\<exists>r g new. useSpiritAbility fmt state = Inr r \<and> 0 \<le> g
           \<and> money (result_state r) = money state + g
           \<and> result_moneyGained r = (if 0 < g then Some g else None)
           \<and> modifiers (result_state r) = modifiers state @ new
           \<and> list_all (\<lambda>m. 0 \<le> mvalue m) new"
proof -
  let ?ns = "state\<lparr>spiritAbilityUsed := True\<rparr>"
  let ?sw = "spiritSwitch fmt state ?ns (modifier (wis (stats (character state))))
               (spiritAnimal (traits (character state)))"
  let ?r = "\<lparr>result_state = (snd ?sw)\<lparr>money := money (snd ?sw) + fst ?sw,
                  choices := choices (snd ?sw) @
                    [''spirit:'' @ spiritStr (spiritAnimal (traits (character state)))]\<rparr>,
              result_moneyGained = (if 0 < fst ?sw then Some (fst ?sw) else None)\<rparr>"
  have r: "useSpiritAbility fmt state = Inr ?r"
    using useSpiritAbility_unused [OF assms, of fmt] by (simp add: Let_def)
  obtain new where new: "modifiers (snd ?sw) = modifiers ?ns @ new"
      "list_all (\<lambda>m. 0 \<le> mvalue m) new"
    using spiritSwitch_modifiers by blast
  have g: "0 \<le> fst ?sw" by (rule spiritSwitch_gain_nonneg)
  have m: "money (result_state ?r) = money state + fst ?sw"
    by (simp add: spiritSwitch_money)
  have mods: "modifiers (result_state ?r) = modifiers state @ new"
    using new(1) by simp
  have mg: "result_moneyGained ?r = (if 0 < fst ?sw then Some (fst ?sw) else None)"
    by simp
  from r g m mg mods new(2) show ?thesis by blast
qed

text \<open>
  A Wolf with a WIS modifier of -10 gains nothing and loses nothing; a Dragon with -2 gains
  4000.
\<close>

theorem useSpiritAbility_never_loses_money_witness:
  "\<not> spiritAbilityUsed (withWis (-10) exampleState)
   \<and> (\<exists>r. useSpiritAbility numToString (withWis (-10) exampleState) = Inr r
          \<and> money (result_state r) = 10000 \<and> result_moneyGained r = None)
   \<and> \<not> spiritAbilityUsed (withSpirit Dragon (withWis (-2) exampleState))
   \<and> (\<exists>r. useSpiritAbility numToString (withSpirit Dragon (withWis (-2) exampleState)) = Inr r
          \<and> money (result_state r) = 14000 \<and> result_moneyGained r = Some 4000)"
  using useSpiritAbility_never_loses_money [of "withWis (-10) exampleState" numToString]
    useSpiritAbility_never_loses_money [of "withSpirit Dragon (withWis (-2) exampleState)" numToString]
  by (simp add: fixture_defs useSpiritAbility_def)


section \<open>The hunt modifier and the pitch modifier\<close>


lemma hunt_success_not_pitch_buff:
  "\<not> isPitchBuff \<lparr>description = ''Hunt Success: +4 to Whale negotiations'', mtype = buff,
       mvalue = 4, source = ''hunt'', phasesRemaining = k\<rparr>"
  by (simp add: isPitchBuff_def toLowerCase_def toLowerChar_def)

lemma hunt_failure_not_pitch_buff:
  "\<not> isPitchBuff \<lparr>description = ''Hunt Failure: -2 to Whale negotiations'', mtype = debuff,
       mvalue = -2, source = ''hunt'', phasesRemaining = k\<rparr>"
  by (simp add: isPitchBuff_def)

lemma getPitchModifier_snoc:
  "getPitchModifier ch terr (ms @ [m]) n =
     (if isPitchBuff m then getPitchModifier ch terr ms n + mvalue m
      else getPitchModifier ch terr ms n)"
  by (simp add: getPitchModifier_def Let_def)

lemma modifiers_hunt:
  "modifiers (applyCrossroadsChoice state hunt r) =
     modifiers state @
       [if r + modifier (wis (stats (character state))) \<ge> 16
        then \<lparr>description = ''Hunt Success: +4 to Whale negotiations'', mtype = buff,
               mvalue = 4, source = ''hunt'', phasesRemaining = 99\<rparr>
        else \<lparr>description = ''Hunt Failure: -2 to Whale negotiations'', mtype = debuff,
               mvalue = -2, source = ''hunt'', phasesRemaining = 99\<rparr>]"
  by (simp add: applyCrossroadsChoice_def Let_def)

text \<open>
  Claim C5, the hunt choice, evaluated. The choice pays no money and appends one modifier of
  source "hunt" that lasts 99 phases, with value 4 on success and -2 on failure. The pitch
  modifier does not include it: \<open>getPitchModifier\<close> on the ledger after the choice is what
  it was before, for every character, territory and round. For a character with every
  modifier 0, a hunt won with a roll of 20 leaves the pitch modifier at 0, not 4. The loop
  of \<open>getPitchModifier\<close> adds buffs of source "travel" or "listen" or whose description
  contains "pitch"; the hunt modifiers are neither, and the failure one is a debuff.
\<close>

theorem hunt_modifier_ignored_by_pitch:
  "money (applyCrossroadsChoice state hunt r) = money state
   \<and> (\<exists>m. modifiers (applyCrossroadsChoice state hunt r) = modifiers state @ [m]
          \<and> source m = ''hunt'' \<and> phasesRemaining m = 99
          \<and> mvalue m = (if r + modifier (wis (stats (character state))) \<ge> 16 then 4 else -2))
   \<and> getPitchModifier ch terr (modifiers (applyCrossroadsChoice state hunt r)) n
       = getPitchModifier ch terr (modifiers state) n
   \<and> getPitchModifier exampleCharacter tech
        (modifiers (applyCrossroadsChoice exampleState hunt 20)) 1 = 0"
proof -
  have a: "money (applyCrossroadsChoice state hunt r) = money state"
    by (simp add: applyCrossroadsChoice_def Let_def)
  have b: "\<exists>m. modifiers (applyCrossroadsChoice state hunt r) = modifiers state @ [m]
          \<and> source m = ''hunt'' \<and> phasesRemaining m = 99
          \<and> mvalue m = (if r + modifier (wis (stats (character state))) \<ge> 16 then 4 else -2)"
    by (simp add: modifiers_hunt)
  have c: "getPitchModifier ch' terr' (modifiers (applyCrossroadsChoice state' hunt r')) n'
       = getPitchModifier ch' terr' (modifiers state') n'" for ch' terr' state' r' n'
    by (simp only: modifiers_hunt getPitchModifier_snoc hunt_success_not_pitch_buff
          hunt_failure_not_pitch_buff if_distrib [of isPitchBuff] if_False if_cancel)
  have d: "getPitchModifier exampleCharacter tech (modifiers exampleState) 1 = 0"
    by (simp add: getPitchModifier_def fixture_defs)
  from a b c [of ch terr state r n] c [of exampleCharacter tech exampleState 20 1] d
  show ?thesis by simp
qed


section \<open>The value of a successful pitch\<close>








section \<open>Patience\<close>

lemma patience_applyBodyLanguage:
  "patience (applyBodyLanguage client bl) =
     (if bl = arms_crossed then max 0 (patience client - 2) else patience client)"
  by (cases bl) (simp_all add: applyBodyLanguage_def)

lemma active_applyBodyLanguage:
  "active (applyBodyLanguage client bl) = (0 < patience (applyBodyLanguage client bl))"
  by (cases bl) (simp_all add: applyBodyLanguage_def)

lemma resolvePitch_client:
  "patience (pitch_client (resolvePitch state client pitchRoll br n)) =
     max 0 (patience (applyBodyLanguage client
                        (pitch_bodyLanguage (resolvePitch state client pitchRoll br n))) - 1)"
  "active (pitch_client (resolvePitch state client pitchRoll br n)) =
     (0 < patience (pitch_client (resolvePitch state client pitchRoll br n)))"
  by (auto simp add: resolvePitch_def Let_def active_applyBodyLanguage)

lemma resolveListen_client:
  "listen_client (resolveListen state client br n) =
     applyBodyLanguage client (listen_bodyLanguage (resolveListen state client br n))"
  by (simp add: resolveListen_def Let_def)

text \<open>
  Claim C4, patience in a round. For a client with patience \<open>p \<ge> 0\<close>: a pitch leaves
  \<open>max 0 (p - 1)\<close>, and \<open>max 0 (p - 3)\<close> when the body language is Arms-Crossed, so at least
  1 less whenever \<open>p \<ge> 1\<close>; a listen leaves \<open>p\<close>, and \<open>max 0 (p - 2)\<close> when the body
  language is Arms-Crossed; neither raises patience; and after either the client is active
  exactly when the patience left is positive.
\<close>

theorem patience_after_pitch_and_listen:
  assumes "0 \<le> patience client"
  shows "(let p = patience client;
              rp = resolvePitch state client pitchRoll br n;
              rl = resolveListen state client br n
          in patience (pitch_client rp)
               = max 0 (p - (if pitch_bodyLanguage rp = arms_crossed then 3 else 1))
             \<and> patience (listen_client rl)
               = max 0 (p - (if listen_bodyLanguage rl = arms_crossed then 2 else 0))
             \<and> patience (pitch_client rp) \<le> p
             \<and> patience (listen_client rl) \<le> p
             \<and> active (pitch_client rp) = (0 < patience (pitch_client rp))
             \<and> active (listen_client rl) = (0 < patience (listen_client rl)))"
  unfolding Let_def
  using assms
  by (auto simp add: resolvePitch_client resolveListen_client patience_applyBodyLanguage
        active_applyBodyLanguage max_def)

text \<open>
  Patience 5 and a body-language roll of 1 (Arms-Crossed): the pitch leaves 2 and the client
  active, the listen leaves 3.
\<close>

theorem patience_after_pitch_and_listen_witness:
  "0 \<le> patience exampleClient
   \<and> pitch_bodyLanguage (resolvePitch exampleState exampleClient 15 1 1) = arms_crossed
   \<and> patience (pitch_client (resolvePitch exampleState exampleClient 15 1 1)) = 2
   \<and> patience (listen_client (resolveListen exampleState exampleClient 1 1)) = 3
   \<and> active (pitch_client (resolvePitch exampleState exampleClient 15 1 1))"
proof -
  have h: "0 \<le> patience exampleClient" by (simp add: exampleClient_def)
  have bp: "pitch_bodyLanguage (resolvePitch exampleState exampleClient 15 1 1) = arms_crossed"
    by (simp add: resolvePitch_def Let_def shiftBodyLanguageRoll_def interpretBodyLanguage_def
          fixture_defs)
  have bl: "listen_bodyLanguage (resolveListen exampleState exampleClient 1 1) = arms_crossed"
    by (simp add: resolveListen_def Let_def shiftBodyLanguageRoll_def interpretBodyLanguage_def
          fixture_defs)
  show ?thesis
    using h patience_after_pitch_and_listen [OF h, of exampleState 15 1 1]
    by (simp add: Let_def bp bl) (simp add: exampleClient_def)
qed

text \<open>
  A listen under a Neutral body language leaves patience 5 at 5; a pitch under Arms-Crossed
  takes a patience of 2 to 0, which is 2 less and not 3.
\<close>

theorem listen_patience_counterexample:
  "listen_bodyLanguage (resolveListen exampleState exampleClient 3 1) = neutral
   \<and> patience exampleClient = 5
   \<and> patience (listen_client (resolveListen exampleState exampleClient 3 1)) = 5
   \<and> patience (pitch_client (resolvePitch exampleState
        (exampleClient\<lparr>patience := 2\<rparr>) 15 1 1)) = 0"
  by (simp add: resolveListen_def resolvePitch_def Let_def shiftBodyLanguageRoll_def
        interpretBodyLanguage_def applyBodyLanguage_def fixture_defs exampleClient_def)

section \<open>Dice derivation\<close>

lemma deriveDice_Some:
  assumes "1 \<le> dieSize"
  shows "deriveDice seed blockHash label dieSize
           = Some (unat (foldl hashStep 0 (seed @ blockHash @ label)) mod dieSize + 1)"
  using assms by (simp add: deriveDice_def Let_def)

text \<open>
  Claim C9, \<open>deriveDice\<close>. For a die size of at least 1, equal inputs give equal results,
  and the call returns a number \<open>k\<close> with \<open>1 \<le> k \<le> dieSize\<close>.
\<close>

theorem deriveDice_deterministic_in_range:
  assumes "1 \<le> dieSize"
    and "seed' = seed" and "blockHash' = blockHash" and "label' = label" and "dieSize' = dieSize"
  shows "deriveDice seed' blockHash' label' dieSize' = deriveDice seed blockHash label dieSize
         \<and> (\<exists>k. deriveDice seed blockHash label dieSize = Some k \<and> 1 \<le> k \<and> k \<le> dieSize)"
proof -
  let ?k = "unat (foldl hashStep 0 (seed @ blockHash @ label)) mod dieSize + 1"
  have "unat (foldl hashStep 0 (seed @ blockHash @ label)) mod dieSize < dieSize"
    using assms(1) by simp
  then have "1 \<le> ?k \<and> ?k \<le> dieSize" by simp
  with deriveDice_Some [OF assms(1), of seed blockHash label] assms(2-5)
  show ?thesis by blast
qed

text \<open>The territory roll of a d6 for the seed "a3" and the block hash "0f" is 1.\<close>

theorem deriveDice_deterministic_in_range_witness:
  "(1::nat) \<le> 6
   \<and> deriveDice ''a3'' ''0f'' ''territory'' 6 = deriveDice ''a3'' ''0f'' ''territory'' 6
   \<and> deriveDice ''a3'' ''0f'' ''territory'' 6 = Some 1"
  using deriveDice_deterministic_in_range [of 6 "''a3''" "''a3''" "''0f''" "''0f''"
      "''territory''" "''territory''" 6]
  by (simp add: deriveDice_def hashStep_def)


end
